theory Spec2Isabelle
  imports Main "HOL-Library.AList" "HOL-Library.List_Lexorder" "HOL-Library.Char_ord"
begin

section \<open>JavaScript strings and the string methods the program calls\<close>

text \<open>
  A JavaScript string is a sequence of UTF-16 code units. The model uses \<^typ>\<open>string\<close>:
  every \<^typ>\<open>char\<close> stands for one code unit below 256 (the Latin-1 range, which
  contains ASCII). Product identifiers, image paths and file names of the catalog are
  such strings. Methods that depend on the code unit (\<open>toLowerCase\<close>, \<open>trim\<close>, the
  character classes of \<open>sanitizeText\<close>) are written out on that range.
\<close>

definition startsWith :: "string \<Rightarrow> string \<Rightarrow> bool" where
  "startsWith s p = (take (length p) s = p)"

definition endsWith :: "string \<Rightarrow> string \<Rightarrow> bool" where
  "endsWith s p = (length p \<le> length s \<and> drop (length s - length p) s = p)"

text \<open>\<open>String.prototype.toLowerCase\<close> on code units below 256: A-Z and the accented
  capitals U+00C0..U+00DE (without the multiplication sign U+00D7) move up by 32.\<close>

definition toLowerChar :: "char \<Rightarrow> char" where
  "toLowerChar c =
     (let n = (of_char c :: nat) in
      if (65 \<le> n \<and> n \<le> 90) \<or> (192 \<le> n \<and> n \<le> 222 \<and> n \<noteq> 215)
      then char_of (n + 32) else c)"

definition toLowerCase :: "string \<Rightarrow> string" where
  "toLowerCase s = map toLowerChar s"

text \<open>White space of \<open>String.prototype.trim\<close> below 256: TAB, LF, VT, FF, CR, SPACE
  and NO-BREAK SPACE.\<close>

definition isWhiteSpace :: "char \<Rightarrow> bool" where
  "isWhiteSpace c = ((of_char c :: nat) \<in> {9, 10, 11, 12, 13, 32, 160})"

definition trim :: "string \<Rightarrow> string" where
  "trim s = rev (dropWhile isWhiteSpace (rev (dropWhile isWhiteSpace s)))"

text \<open>\<open>s.split(c)\<close> for a one-character separator: the result always has at least one
  element (\<open>''.split(',')\<close> is \<open>['']\<close>).\<close>

fun split_at :: "char \<Rightarrow> string \<Rightarrow> string list" where
  "split_at c [] = [[]]"
| "split_at c (x # xs) =
     (if x = c then [] # split_at c xs
      else (case split_at c xs of
              w # ws \<Rightarrow> (x # w) # ws
            | [] \<Rightarrow> [[x]]))"

text \<open>\<open>s.replace(/_+$/, '')\<close>: every trailing underscore goes.\<close>

definition stripTrailingUnderscores :: "string \<Rightarrow> string" where
  "stripTrailingUnderscores s = rev (dropWhile (\<lambda>c. c = CHR ''_'') (rev s))"

text \<open>\<open>s.replace(/^_/, '')\<close>: one leading underscore goes.\<close>

definition stripLeadingUnderscore :: "string \<Rightarrow> string" where
  "stripLeadingUnderscore s = (case s of c # cs \<Rightarrow> if c = CHR ''_'' then cs else s | [] \<Rightarrow> s)"

text \<open>\<open>s.replace(/-/g, '_')\<close>.\<close>

definition hyphensToUnderscores :: "string \<Rightarrow> string" where
  "hyphensToUnderscores s = map (\<lambda>c. if c = CHR ''-'' then CHR ''_'' else c) s"

text \<open>A non-negative integer in a template literal prints in decimal.\<close>

definition digitChar :: "nat \<Rightarrow> char" where
  "digitChar d = ''0123456789'' ! d"

fun showNat :: "nat \<Rightarrow> string" where
  "showNat n = (if n < 10 then [digitChar n] else showNat (n div 10) @ [digitChar (n mod 10)])"

declare showNat.simps [simp del]


section \<open>Node's \<open>path\<close> module (POSIX flavour, separator \<open>/\<close>)\<close>

text \<open>The last component of a path, trailing separators ignored.\<close>

definition isSlash :: "char \<Rightarrow> bool" where
  "isSlash c = (c = CHR ''/'')"

definition lastComponent :: "string \<Rightarrow> string" where
  "lastComponent path = rev (takeWhile (\<lambda>c. \<not> isSlash c) (dropWhile isSlash (rev path)))"

text \<open>\<open>path.extname\<close>: from the last dot of the last component to its end; empty when
  there is no dot, when the only dot is the component's first character, and for the
  component \<open>..\<close>.\<close>

definition extname :: "string \<Rightarrow> string" where
  "extname path =
     (let comp = lastComponent path;
          afterDot = takeWhile (\<lambda>c. c \<noteq> CHR ''.'') (rev comp);
          startDot = length comp - length afterDot - 1
      in if CHR ''.'' \<notin> set comp \<or> startDot = 0 \<or> comp = ''..'' then []
         else drop startDot comp)"

text \<open>\<open>path.basename(path, suffix)\<close>: the last component, with \<open>suffix\<close> removed from
  its end when it is a proper ending of the component. The remaining branches are the
  corner cases of Node's backward scan (a suffix equal to the whole path, a path of
  separators only, a suffix running past the start of the component).\<close>

definition basename :: "string \<Rightarrow> string \<Rightarrow> string" where
  "basename path suffix =
     (let comp = lastComponent path in
      if suffix \<noteq> [] \<and> length suffix \<le> length path then
        if suffix = path then []
        else if comp = [] then path
        else if length suffix < length comp \<and> endsWith comp suffix
          then take (length comp - length suffix) comp
        else if length comp < length suffix \<and> endsWith suffix comp
          then comp @ takeWhile isSlash (rev path)
        else comp
      else comp)"

text \<open>\<open>path.dirname\<close>: everything before the separator that precedes the last
  component; \<open>.\<close> (or \<open>/\<close> for a rooted path) when there is no such separator.\<close>

definition dirname :: "string \<Rightarrow> string" where
  "dirname path =
     (if path = [] then ''.''
      else
        let hasRoot = isSlash (hd path);
            rest = dropWhile (\<lambda>c. \<not> isSlash c) (dropWhile isSlash (rev (tl path)));
            end = length rest
        in if rest = [] then (if hasRoot then ''/'' else ''.'')
           else if hasRoot \<and> end = 1 then ''//''
           else take end path)"


section \<open>The view classifier: \<open>extractImageView\<close>\<close>

text \<open>What \<open>sharp(file).metadata()\<close> resolves to. The fields are optional in sharp's
  result; an absent one prints as \<open>undefined\<close> in the template literal.\<close>

record metadata =
  width :: "nat option"
  height :: "nat option"

definition showField :: "nat option \<Rightarrow> string" where
  "showField v = (case v of None \<Rightarrow> ''undefined'' | Some n \<Rightarrow> showNat n)"

text \<open>\<open>viewLabelMap\<close> is an object literal read with \<open>viewLabelMap[view]\<close>, so besides its
  seven own keys the lookup finds what the object inherits. \<open>view\<close> is lower case by
  then, which leaves \<open>constructor\<close> and \<open>__proto__\<close>; both values are truthy and print
  in the template literal as shown.\<close>

definition viewLabelMap :: "string \<Rightarrow> string option" where
  "viewLabelMap view =
     (if view = ''2'' then Some ''outsole''
      else if view = ''3'' then Some ''front''
      else if view = ''4'' then Some ''back''
      else if view = ''5'' then Some ''instep_profile''
      else if view = ''6'' then Some ''birdseye''
      else if view = ''8'' then Some ''profile''
      else if view = ''9'' then Some ''lifestyle''
      else if view = ''constructor'' then Some ''function Object() { [native code] }''
      else if view = ''__proto__'' then Some ''[object Object]''
      else None)"

definition ignoredFolders :: "string list" where
  "ignoredFolders = [''spins'', ''spin'', ''swatch'']"

definition sizeLabels :: "string list" where
  "sizeLabels = [''extralarge'', ''large'', ''regular'', ''thumbnail'']"

text \<open>\<open>folderName\<close> and \<open>baseFolder\<close> of \<open>extractImageView\<close>.\<close>

definition folderName :: "string \<Rightarrow> string" where
  "folderName imagePath = toLowerCase (last (split_at CHR ''/'' (dirname imagePath)))"

definition baseFolder :: "string \<Rightarrow> string" where
  "baseFolder imagePath =
     (let f = folderName imagePath in
      if f \<in> set ignoredFolders then ''default''
      else if f \<in> set [''gray'', ''white''] then f
      else ''default'')"

text \<open>The loop over \<open>sizeLabels\<close>: the first label that ends \<open>view\<close> is cut off, with
  the underscores before it, and the loop breaks.\<close>

fun stripSizeLabel :: "string list \<Rightarrow> string \<Rightarrow> string" where
  "stripSizeLabel [] view = view"
| "stripSizeLabel (label # labels) view =
     (if endsWith view label
      then stripTrailingUnderscores (take (length view - length label) view)
      else stripSizeLabel labels view)"

text \<open>The variable \<open>view\<close> of \<open>extractImageView\<close>, as it stands before the key is
  composed.\<close>

definition semanticViewOf :: "string \<Rightarrow> string \<Rightarrow> string" where
  "semanticViewOf productId imagePath =
     (let ext = extname imagePath;
          fileName = basename imagePath ext;
          base = (if startsWith fileName productId then drop (length productId) fileName
                  else fileName);
          view0 = toLowerCase (stripLeadingUnderscore base);
          view1 = stripSizeLabel sizeLabels view0;
          view2 = (if view1 = [] \<or> trim view1 = [] then ''main'' else view1)
      in case viewLabelMap view2 of Some label \<Rightarrow> label | None \<Rightarrow> view2)"

text \<open>The \<open>try\<close>/\<open>catch\<close> around the probe: \<open>None\<close> is a rejected promise, which leaves
  \<open>imageDimensions\<close> empty.\<close>

definition imageDimensions :: "metadata option \<Rightarrow> string" where
  "imageDimensions probe =
     (case probe of
        None \<Rightarrow> []
      | Some m \<Rightarrow> showField (width m) @ ''x'' @ showField (height m))"

definition viewName :: "string \<Rightarrow> string \<Rightarrow> string \<Rightarrow> string" where
  "viewName bucket view dims =
     hyphensToUnderscores
       (if dims \<noteq> [] then bucket @ ''-'' @ view @ ''-'' @ dims else bucket @ ''-'' @ view)"

text \<open>\<open>sharp\<close> gives the outcome of the probe for each image path.\<close>

definition extractImageView :: "(string \<Rightarrow> metadata option) \<Rightarrow> string \<Rightarrow> string \<Rightarrow> string" where
  "extractImageView sharp productId imagePath =
     viewName (baseFolder imagePath) (semanticViewOf productId imagePath)
       (imageDimensions (sharp imagePath))"


section \<open>\<open>processProductViews\<close>: the views of a product\<close>

text \<open>An element of \<open>productImagesAvailable\<close>.\<close>

record product =
  productId :: string
  images :: "string list"
  xmlFileName :: string

text \<open>\<open>views\<close> is a \<open>Map\<close> from view key to image path. A \<open>Map\<close> iterates in the order
  in which its keys were first set, and \<open>views.set(k, v)\<close> on a key already present
  keeps the key's place and replaces the value: the association list with
  \<^const>\<open>AList.update\<close>.\<close>

type_synonym views = "(string \<times> string) list"

definition productViews :: "(string \<Rightarrow> metadata option) \<Rightarrow> product \<Rightarrow> views" where
  "productViews sharp p =
     fold (\<lambda>imagePath views.
             AList.update (extractImageView sharp (productId p) imagePath) imagePath views)
          (images p) []"

text \<open>The loop over \<open>productImagesAvailable\<close>: each product with its views.\<close>

definition processProductViews ::
  "(string \<Rightarrow> metadata option) \<Rightarrow> product list \<Rightarrow> (string \<times> views) list" where
  "processProductViews sharp products = map (\<lambda>p. (productId p, productViews sharp p)) products"


section \<open>\<open>exportViewCSV\<close>: the inventory\<close>

record entry =
  filename :: string
  view :: string

definition imageFilename :: "string \<Rightarrow> string \<Rightarrow> string" where
  "imageFilename pid v = pid @ ''_'' @ v @ ''.jpg''"

definition mkEntry :: "string \<Rightarrow> string \<times> string \<Rightarrow> entry" where
  "mkEntry pid kv = \<lparr>filename = imageFilename pid (fst kv), view = fst kv\<rparr>"

text \<open>The loop over \<open>views.entries()\<close> pushes each entry onto \<open>gray\<close> or \<open>nonGray\<close>.\<close>

definition grayEntries :: "string \<Rightarrow> views \<Rightarrow> entry list" where
  "grayEntries pid vs = map (mkEntry pid) (filter (\<lambda>kv. startsWith (fst kv) ''gray_'') vs)"

definition nonGrayEntries :: "string \<Rightarrow> views \<Rightarrow> entry list" where
  "nonGrayEntries pid vs = map (mkEntry pid) (filter (\<lambda>kv. \<not> startsWith (fst kv) ''gray_'') vs)"

definition defaultPreferredOrder :: "string list" where
  "defaultPreferredOrder =
     [''main'', ''lifestyle'', ''outsole'', ''profile'', ''front'', ''back'',
      ''instep_profile'', ''birdseye'']"

definition grayPreferredOrder :: "string list" where
  "grayPreferredOrder =
     [''profile'', ''lifestyle'', ''main'', ''instep_profile'', ''doubleheel'',
      ''doublequarter'', ''outsole'']"

text \<open>\<open>s.replace(/^(gray_|default_|white_)/, '')\<close>.\<close>

definition stripBucketPrefix :: "string \<Rightarrow> string" where
  "stripBucketPrefix s =
     (if startsWith s ''gray_'' then drop 5 s
      else if startsWith s ''default_'' then drop 8 s
      else if startsWith s ''white_'' then drop 6 s
      else s)"

text \<open>\<open>s.replace(/_\d+x\d+$/, '')\<close>, read from the end of the string: digits, an \<open>x\<close>,
  digits, an underscore.\<close>

definition isDigit :: "char \<Rightarrow> bool" where
  "isDigit c = (c \<in> set ''0123456789'')"

definition stripDimSuffix :: "string \<Rightarrow> string" where
  "stripDimSuffix s =
     (let r = rev s; h = takeWhile isDigit r in
      case dropWhile isDigit r of
        [] \<Rightarrow> s
      | x # r2 \<Rightarrow>
          if h \<noteq> [] \<and> x = CHR ''x'' then
            (let w = takeWhile isDigit r2 in
             case dropWhile isDigit r2 of
               [] \<Rightarrow> s
             | u # r4 \<Rightarrow> if w \<noteq> [] \<and> u = CHR ''_'' then rev r4 else s)
          else s)"

definition sortToken :: "string \<Rightarrow> string" where
  "sortToken v = stripDimSuffix (stripBucketPrefix v)"

text \<open>\<open>Array.prototype.indexOf\<close>: the first position, or -1.\<close>

fun indexOf :: "string list \<Rightarrow> string \<Rightarrow> int" where
  "indexOf [] x = - 1"
| "indexOf (y # ys) x =
     (if y = x then 0 else (let i = indexOf ys x in if i = - 1 then - 1 else i + 1))"

text \<open>The comparator handed to \<open>sort\<close>. \<open>localeCompare\<close> belongs to the runtime's
  collation and is a parameter here.\<close>

definition compareEntries ::
  "(string \<Rightarrow> string \<Rightarrow> int) \<Rightarrow> string list \<Rightarrow> entry \<Rightarrow> entry \<Rightarrow> int" where
  "compareEntries localeCompare preferredOrder a b =
     (let indexA = indexOf preferredOrder (sortToken (view a));
          indexB = indexOf preferredOrder (sortToken (view b))
      in if indexA = - 1 \<and> indexB = - 1 then localeCompare (view a) (view b)
         else if indexA = - 1 then 1
         else if indexB = - 1 then - 1
         else indexA - indexB)"

text \<open>\<open>Array.prototype.sort\<close> is stable: with a comparator it orders the elements and
  keeps those that compare equal in their original order. Insertion from the right,
  each element going before the first one it does not exceed, is such a sort.\<close>

fun insertBy :: "('a \<Rightarrow> 'a \<Rightarrow> int) \<Rightarrow> 'a \<Rightarrow> 'a list \<Rightarrow> 'a list" where
  "insertBy cmp x [] = [x]"
| "insertBy cmp x (y # ys) = (if cmp x y \<le> 0 then x # y # ys else y # insertBy cmp x ys)"

fun sortBy :: "('a \<Rightarrow> 'a \<Rightarrow> int) \<Rightarrow> 'a list \<Rightarrow> 'a list" where
  "sortBy cmp [] = []"
| "sortBy cmp (x # xs) = insertBy cmp x (sortBy cmp xs)"

definition sortedGray :: "(string \<Rightarrow> string \<Rightarrow> int) \<Rightarrow> string \<Rightarrow> views \<Rightarrow> entry list" where
  "sortedGray lc pid vs = sortBy (compareEntries lc grayPreferredOrder) (grayEntries pid vs)"

definition sortedNonGray :: "(string \<Rightarrow> string \<Rightarrow> int) \<Rightarrow> string \<Rightarrow> views \<Rightarrow> entry list" where
  "sortedNonGray lc pid vs =
     sortBy (compareEntries lc defaultPreferredOrder) (nonGrayEntries pid vs)"

text \<open>\<open>xs.join(sep)\<close>.\<close>

fun join :: "string \<Rightarrow> string list \<Rightarrow> string" where
  "join sep [] = []"
| "join sep [x] = x"
| "join sep (x # y # ys) = x @ sep @ join sep (y # ys)"

definition quoted :: "string \<Rightarrow> string" where
  "quoted s = [CHR 0x22] @ s @ [CHR 0x22]"

definition inventoryRow :: "(string \<Rightarrow> string \<Rightarrow> int) \<Rightarrow> string \<Rightarrow> views \<Rightarrow> string" where
  "inventoryRow lc pid vs =
     quoted pid @ '','' @ quoted (join '', '' (map filename (sortedNonGray lc pid vs)))
       @ '','' @ quoted (join '', '' (map filename (sortedGray lc pid vs)))"

text \<open>The text written to the inventory file, for the products with their views.\<close>

definition exportViewCSV :: "(string \<Rightarrow> string \<Rightarrow> int) \<Rightarrow> (string \<times> views) list \<Rightarrow> string" where
  "exportViewCSV lc products =
     join [CHR 0x0A]
       (''productId,nonGrayImageFileNames,grayImageFileNames''
          # map (\<lambda>(pid, vs). inventoryRow lc pid vs) products)"


section \<open>\<open>copyImagesToOutput\<close>: the output store\<close>

text \<open>The output directory, as far as the program can tell its files apart: which source
  image each file name holds a copy of. \<open>readable\<close> says for which sources
  \<open>fs.copyFileSync\<close> succeeds; a failure is caught, logged and skipped.\<close>

type_synonym store = "string \<rightharpoonup> string"

definition copyFileSync :: "(string \<Rightarrow> bool) \<Rightarrow> string \<Rightarrow> string \<Rightarrow> store \<Rightarrow> store option" where
  "copyFileSync readable src dst st = (if readable src then Some (st(dst \<mapsto> src)) else None)"

definition copyView :: "(string \<Rightarrow> bool) \<Rightarrow> string \<Rightarrow> string \<times> string \<Rightarrow> store \<Rightarrow> store" where
  "copyView readable pid kv st =
     (case copyFileSync readable (snd kv) (imageFilename pid (fst kv)) st of
        Some st' \<Rightarrow> st'
      | None \<Rightarrow> st)"

definition copyProduct :: "(string \<Rightarrow> bool) \<Rightarrow> string \<Rightarrow> views \<Rightarrow> store \<Rightarrow> store" where
  "copyProduct readable pid vs st = fold (copyView readable pid) vs st"

definition copyImagesToOutput :: "(string \<Rightarrow> bool) \<Rightarrow> (string \<times> views) list \<Rightarrow> store \<Rightarrow> store" where
  "copyImagesToOutput readable products st =
     fold (\<lambda>(pid, vs). copyProduct readable pid vs) products st"


section \<open>\<open>generateMatrixifyCSV\<close>: the Shopify manifest\<close>

datatype js_error = TypeError

text \<open>\<open>sanitizeText\<close>: the two replacements of curly quotes and the removal of zero-width
  characters concern code units above 255 and change no string of the model; the
  control characters U+0000..U+001F and U+007F..U+009F are removed, then the string is
  trimmed.\<close>

definition isControl :: "char \<Rightarrow> bool" where
  "isControl c = (let n = (of_char c :: nat) in n \<le> 31 \<or> (127 \<le> n \<and> n \<le> 159))"

definition sanitizeText :: "string \<Rightarrow> string" where
  "sanitizeText str = trim (filter (\<lambda>c. \<not> isControl c) str)"

text \<open>\<open>s.split(/\r?\n/)\<close>.\<close>

definition consHead :: "char \<Rightarrow> string list \<Rightarrow> string list" where
  "consHead c ws = (case ws of w # ws' \<Rightarrow> (c # w) # ws' | [] \<Rightarrow> [[c]])"

fun splitLines :: "string \<Rightarrow> string list" where
  "splitLines [] = [[]]"
| "splitLines [c] = (if c = CHR 0x0A then [[], []] else [[c]])"
| "splitLines (c # d # cs) =
     (if c = CHR 0x0D \<and> d = CHR 0x0A then [] # splitLines cs
      else if c = CHR 0x0A then [] # splitLines (d # cs)
      else consHead c (splitLines (d # cs)))"

text \<open>\<open>row.split(/,(?=(?:(?:[^"]*"){2})*[^"]*$)/)\<close>: a comma separates when an even
  number of double quotes follows it.\<close>

fun splitFields :: "string \<Rightarrow> string list" where
  "splitFields [] = [[]]"
| "splitFields (c # cs) =
     (if c = CHR '','' \<and> even (count_list cs (CHR 0x22)) then [] # splitFields cs
      else consHead c (splitFields cs))"

text \<open>\<open>s.replace(/^"|"$/g, '')\<close>: a double quote at the start and one at the end go.\<close>

definition stripQuotes :: "string \<Rightarrow> string" where
  "stripQuotes s =
     (let s1 = (case s of c # cs \<Rightarrow> if c = CHR 0x22 then cs else s | [] \<Rightarrow> s)
      in if s1 \<noteq> [] \<and> last s1 = CHR 0x22 then butlast s1 else s1)"

text \<open>\<open>s.replace('.jpg', '')\<close>: the first occurrence of the substring goes.\<close>

fun removeFirst :: "string \<Rightarrow> string \<Rightarrow> string" where
  "removeFirst pat [] = []"
| "removeFirst pat (c # cs) =
     (if startsWith (c # cs) pat then drop (length pat) (c # cs) else c # removeFirst pat cs)"

record productInfo =
  shopifyId :: string
  title :: string

text \<open>The style map: the lines of the style file that are not blank, without the first,
  each split at commas and trimmed; a line with a third field that is not empty sets
  the entry of that style, a later line replacing an earlier one.\<close>

definition styleLine :: "string \<Rightarrow> (string \<rightharpoonup> productInfo) \<Rightarrow> (string \<rightharpoonup> productInfo)" where
  "styleLine line m =
     (case map trim (split_at CHR '','' line) of
        ident # ttl # style # _ \<Rightarrow>
          if style \<noteq> [] then m(style \<mapsto> \<lparr>shopifyId = ident, title = ttl\<rparr>) else m
      | _ \<Rightarrow> m)"

definition loadStyleMap :: "string \<Rightarrow> (string \<rightharpoonup> productInfo)" where
  "loadStyleMap content =
     fold styleLine (drop 1 (filter (\<lambda>line. trim line \<noteq> []) (splitLines content))) Map.empty"

text \<open>One element of \<open>output\<close> after the header.\<close>

record manifestRow =
  rowId :: string
  imageType :: string
  imageSrc :: string
  imageCommand :: string
  imagePosition :: nat
  imageWidth :: string
  imageHeight :: string
  imageAltText :: string
  styleColumn :: string

text \<open>The body of the loop over \<open>imageList\<close> for a file name that is not blank.
  \<open>position\<close> is the counter before the row; the array literal evaluates
  \<open>position++\<close> for the fifth column before it compares \<open>position === 2\<close> for the
  ninth. \<open>parts[parts.length - 2]\<close> is \<open>undefined\<close> for a name without underscore, and
  \<open>sanitizeText(undefined)\<close> throws.\<close>

definition imageRow :: "productInfo \<Rightarrow> string \<Rightarrow> nat \<Rightarrow> string \<Rightarrow> js_error + manifestRow" where
  "imageRow info style position trimmed =
     (let parts = split_at CHR ''_'' trimmed;
          dimPart = removeFirst ''.jpg'' (last parts)
      in if length parts < 2 then Inl TypeError
         else
           let v = parts ! (length parts - 2);
               wh = (if CHR ''x'' \<in> set dimPart
                     then (case split_at CHR ''x'' dimPart of
                             w # h # _ \<Rightarrow> (w, h)
                           | _ \<Rightarrow> (dimPart, ''undefined''))
                     else ([], []));
               cleanView = sanitizeText v;
               viewText = (if cleanView = ''default'' then [] else '' - '' @ cleanView);
               cleanTitle = sanitizeText (title info);
               altText = cleanTitle @ viewText;
               position' = position + 1
           in Inr \<lparr>rowId = shopifyId info, imageType = ''IMAGE'', imageSrc = trimmed,
                   imageCommand = ''REPLACE'', imagePosition = position,
                   imageWidth = fst wh, imageHeight = snd wh, imageAltText = altText,
                   styleColumn = (if position' = 2 then style else [])\<rparr>)"

text \<open>The names the loop over \<open>imageList\<close> emits rows for: each element trimmed, the
  blank ones left out.\<close>

definition imageNames :: "string list \<Rightarrow> string list" where
  "imageNames imgs = filter (\<lambda>n. n \<noteq> []) (map trim imgs)"

text \<open>The loop over \<open>imageList\<close>: blank names are skipped without counting.\<close>

fun imageLoop :: "productInfo \<Rightarrow> string \<Rightarrow> nat \<Rightarrow> string list \<Rightarrow> js_error + manifestRow list" where
  "imageLoop info style position [] = Inr []"
| "imageLoop info style position (img # rest) =
     (let trimmed = trim img in
      if trimmed = [] then imageLoop info style position rest
      else (case imageRow info style position trimmed of
              Inl e \<Rightarrow> Inl e
            | Inr r \<Rightarrow>
                (case imageLoop info style (position + 1) rest of
                   Inl e \<Rightarrow> Inl e
                 | Inr rs \<Rightarrow> Inr (r # rs))))"

text \<open>The fields of an inventory row, and the destructuring
  \<open>[style, nonGrayListRaw, grayListRaw]\<close>, where a missing element is \<open>undefined\<close>.\<close>

definition rowFields :: "string \<Rightarrow> string list" where
  "rowFields row = map (\<lambda>s. trim (stripQuotes s)) (splitFields row)"

definition fieldAt :: "string list \<Rightarrow> nat \<Rightarrow> string option" where
  "fieldAt fs i = (if i < length fs then Some (fs ! i) else None)"

text \<open>The list the row's images are taken from: \<open>grayListRaw\<close> when it is truthy, else
  \<open>nonGrayListRaw\<close>, whose \<open>split\<close> throws when it is \<open>undefined\<close>.\<close>

definition imageList :: "string option \<Rightarrow> string option \<Rightarrow> js_error + string list" where
  "imageList nonGrayListRaw grayListRaw =
     (case grayListRaw of
        Some g \<Rightarrow>
          if g \<noteq> [] then Inr (split_at CHR '','' g)
          else (case nonGrayListRaw of
                  Some n \<Rightarrow> Inr (split_at CHR '','' n)
                | None \<Rightarrow> Inl TypeError)
      | None \<Rightarrow>
          (case nonGrayListRaw of
             Some n \<Rightarrow> Inr (split_at CHR '','' n)
           | None \<Rightarrow> Inl TypeError))"

text \<open>The body of the loop over the inventory rows: the manifest rows one inventory row
  adds to \<open>output\<close>. A blank row and a row whose style the map does not know
  (\<open>undefined\<close> included) add none.\<close>

definition processRow :: "(string \<rightharpoonup> productInfo) \<Rightarrow> string \<Rightarrow> js_error + manifestRow list" where
  "processRow styleMap row =
     (if trim row = [] then Inr []
      else
        let fs = rowFields row in
        case fieldAt fs 0 of
          None \<Rightarrow> Inr []
        | Some style \<Rightarrow>
            (case styleMap style of
               None \<Rightarrow> Inr []
             | Some info \<Rightarrow>
                 (case imageList (fieldAt fs 1) (fieldAt fs 2) of
                    Inl e \<Rightarrow> Inl e
                  | Inr imgs \<Rightarrow> imageLoop info style 1 imgs)))"

fun processRows :: "(string \<rightharpoonup> productInfo) \<Rightarrow> string list \<Rightarrow> js_error + manifestRow list" where
  "processRows styleMap [] = Inr []"
| "processRows styleMap (row # rows) =
     (case processRow styleMap row of
        Inl e \<Rightarrow> Inl e
      | Inr out \<Rightarrow>
          (case processRows styleMap rows of
             Inl e \<Rightarrow> Inl e
           | Inr outs \<Rightarrow> Inr (out @ outs)))"

definition manifestHeader :: "string list" where
  "manifestHeader =
     [''ID'', ''Image Type'', ''Image Src'', ''Image Command'', ''Image Position'',
      ''Image Width'', ''Image Height'', ''Image Alt Text'', ''Style'']"

definition rowCells :: "manifestRow \<Rightarrow> string list" where
  "rowCells r =
     [rowId r, imageType r, imageSrc r, imageCommand r, showNat (imagePosition r),
      imageWidth r, imageHeight r, imageAltText r, styleColumn r]"

definition csvText :: "string list list \<Rightarrow> string" where
  "csvText output = join [CHR 0x0A] (map (\<lambda>r. join '','' (map quoted r)) output)"

text \<open>The whole function, from the contents of the style file and of the inventory file
  (\<open>None\<close> when the file does not exist) to the text written (\<open>None\<close> when the function
  returns before writing).\<close>

definition generateMatrixifyCSV :: "string option \<Rightarrow> string option \<Rightarrow> js_error + string option" where
  "generateMatrixifyCSV styleMapFile inventoryFile =
     (case styleMapFile of
        None \<Rightarrow> Inr None
      | Some styleMapContent \<Rightarrow>
          let styleMap = loadStyleMap styleMapContent in
          (case inventoryFile of
             None \<Rightarrow> Inr None
           | Some inventory \<Rightarrow>
               (case processRows styleMap (drop 1 (splitLines inventory)) of
                  Inl e \<Rightarrow> Inl e
                | Inr out \<Rightarrow> Inr (Some (csvText (manifestHeader # map rowCells out))))))"


section \<open>The directory checks at startup\<close>

text \<open>The file system as the set of directories that exist, named as the program names
  them under its own directory.\<close>

definition catalogsDir :: string where "catalogsDir = ''sfcc-catalogs''"
definition stylesDir :: string where "stylesDir = ''sfcc-styles''"
definition imagesDir :: string where "imagesDir = ''sfcc-images''"
definition outputDir :: string where "outputDir = ''sfcc-images-output''"
definition matrixifyDir :: string where "matrixifyDir = ''matrixify''"

text \<open>\<open>index.js\<close> and the revision with the complete manifest generator: every
  directory that is missing is created, and the run goes on.\<close>

definition ensureDir :: "string \<Rightarrow> string set \<Rightarrow> string set" where
  "ensureDir dir dirs = (if dir \<notin> dirs then insert dir dirs else dirs)"

definition startup :: "string set \<Rightarrow> nat + string set" where
  "startup dirs =
     Inr (fold ensureDir [catalogsDir, stylesDir, imagesDir, outputDir, matrixifyDir] dirs)"

text \<open>The older revision: \<open>process.exit(1)\<close> at the first of four directories that is
  missing (\<open>Inl\<close> carries the exit status); only the manifest directory is created.\<close>

definition startupChecked :: "string set \<Rightarrow> nat + string set" where
  "startupChecked dirs =
     (if catalogsDir \<notin> dirs then Inl 1
      else if stylesDir \<notin> dirs then Inl 1
      else if imagesDir \<notin> dirs then Inl 1
      else if outputDir \<notin> dirs then Inl 1
      else Inr (ensureDir matrixifyDir dirs))"


section \<open>Properties of the classifier\<close>

lemma digitChar_digit: "d < 10 \<Longrightarrow> digitChar d \<in> set ''0123456789''"
  unfolding digitChar_def by (rule nth_mem) simp

lemma showNat_digits: "set (showNat n) \<subseteq> set ''0123456789''"
proof (induction n rule: showNat.induct)
  case (1 n)
  show ?case
  proof (cases "n < 10")
    case True
    then show ?thesis
      using digitChar_digit [of n] by (subst showNat.simps) simp
  next
    case False
    have "n mod 10 < 10" by simp
    then have "digitChar (n mod 10) \<in> set ''0123456789''" by (rule digitChar_digit)
    with False "1.IH" show ?thesis
      by (subst showNat.simps) simp
  qed
qed

lemma showNat_nonempty: "showNat n \<noteq> []"
  by (subst showNat.simps) simp

lemma showField_no_hyphen: "CHR ''-'' \<notin> set (showField v)"
proof (cases v)
  case None
  then show ?thesis by (simp add: showField_def)
next
  case (Some n)
  then show ?thesis using showNat_digits [of n] by (auto simp: showField_def)
qed

lemma imageDimensions_Some:
  "imageDimensions (Some m) \<noteq> [] \<and> CHR ''-'' \<notin> set (imageDimensions (Some m))"
  using showField_no_hyphen by (simp add: imageDimensions_def)

lemma baseFolder_cases:
  "baseFolder p = ''default'' \<or> baseFolder p = ''gray'' \<or> baseFolder p = ''white''"
  by (auto simp: baseFolder_def Let_def)

lemma hyphen_map_id:
  "CHR ''-'' \<notin> set s \<Longrightarrow> map (\<lambda>c. if c = CHR ''-'' then CHR ''_'' else c) s = s"
  by (induction s) auto

lemma viewName_plain:
  "CHR ''-'' \<notin> set b \<Longrightarrow> viewName b v [] = b @ ''_'' @ hyphensToUnderscores v"
  by (simp add: viewName_def hyphensToUnderscores_def hyphen_map_id)

lemma viewName_dims:
  "CHR ''-'' \<notin> set b \<Longrightarrow> dims \<noteq> [] \<Longrightarrow> CHR ''-'' \<notin> set dims \<Longrightarrow>
   viewName b v dims = b @ ''_'' @ hyphensToUnderscores v @ ''_'' @ dims"
  by (simp add: viewName_def hyphensToUnderscores_def hyphen_map_id)

lemma baseFolder_no_hyphen: "CHR ''-'' \<notin> set (baseFolder p)"
  using baseFolder_cases [of p] by auto

lemma extractImageView_failed:
  "sharp p = None \<Longrightarrow>
   extractImageView sharp pid p = baseFolder p @ ''_'' @ hyphensToUnderscores (semanticViewOf pid p)"
  by (simp add: extractImageView_def imageDimensions_def viewName_plain baseFolder_no_hyphen)

lemma extractImageView_probed:
  "sharp p = Some m \<Longrightarrow>
   extractImageView sharp pid p =
     baseFolder p @ ''_'' @ hyphensToUnderscores (semanticViewOf pid p) @ ''_''
       @ imageDimensions (Some m)"
  using imageDimensions_Some [of m]
  by (simp add: extractImageView_def viewName_dims baseFolder_no_hyphen)

lemma extractImageView_prefix:
  "startsWith (extractImageView sharp pid p) (baseFolder p @ ''_'')"
proof (cases "sharp p")
  case None
  then show ?thesis by (simp add: extractImageView_failed startsWith_def)
next
  case (Some m)
  then show ?thesis by (simp add: extractImageView_probed startsWith_def)
qed

subsection \<open>Scenario A\<close>

text \<open>
  C1 (as the specification states it): for the path
  \<open>gray/ABC123_instepprofile_large.jpg\<close>, product \<open>ABC123\<close> and probed dimensions
  800 by 600 the classifier returns \<open>gray_instep_profile_800x600\<close>.
  It does not: the token \<open>instepprofile\<close> is no key of \<open>viewLabelMap\<close>, which only
  translates the numeric codes, so it passes through without an underscore.
\<close>

theorem scenario_A_counterexample:
  "extractImageView (\<lambda>_. Some \<lparr>width = Some 800, height = Some 600\<rparr>) ''ABC123''
     ''gray/ABC123_instepprofile_large.jpg'' \<noteq> ''gray_instep_profile_800x600''"
  by code_simp

text \<open>
  C1 (amended): for that path and product, whenever the probe succeeds with width 800
  and height 600, the classifier returns \<open>gray_instepprofile_800x600\<close>.
\<close>

theorem scenario_A_view_key:
  assumes "sharp ''gray/ABC123_instepprofile_large.jpg'' = Some m"
    and "width m = Some 800" and "height m = Some 600"
  shows "extractImageView sharp ''ABC123'' ''gray/ABC123_instepprofile_large.jpg''
           = ''gray_instepprofile_800x600''"
proof -
  have b: "baseFolder ''gray/ABC123_instepprofile_large.jpg'' = ''gray''"
    by code_simp
  have v: "semanticViewOf ''ABC123'' ''gray/ABC123_instepprofile_large.jpg'' = ''instepprofile''"
    by code_simp
  have w: "showNat 800 = ''800''" and h: "showNat 600 = ''600''"
    by code_simp+
  have u: "hyphensToUnderscores ''instepprofile'' = ''instepprofile''"
    by code_simp
  show ?thesis
    using assms by (simp add: extractImageView_probed b v u imageDimensions_def showField_def w h)
qed

theorem scenario_A_view_key_witness:
  "extractImageView (\<lambda>_. Some \<lparr>width = Some 800, height = Some 600\<rparr>) ''ABC123''
     ''gray/ABC123_instepprofile_large.jpg'' = ''gray_instepprofile_800x600''"
  by (rule scenario_A_view_key [where m = "\<lparr>width = Some 800, height = Some 600\<rparr>"]) simp_all


subsection \<open>The classifier is a function of bucket, view and dimensions\<close>

text \<open>
  C5: \<open>extractImageView\<close> is total and deterministic. No statement of the function can
  throw on string arguments and the probe sits inside \<open>try\<close>/\<open>catch\<close>, so the model has
  no error value: for every product, path and outcome of the probe it yields a key.
  Two calls that agree on the bucket, on the view derived from the file name and on the
  probed dimensions return the same key. A failed probe yields bucket, underscore and
  view; a successful one yields the same string followed by an underscore and the
  dimensions, so failure only leaves that suffix out.
\<close>

theorem extractImageView_deterministic:
  "(baseFolder p1 = baseFolder p2 \<and> semanticViewOf pid1 p1 = semanticViewOf pid2 p2
      \<and> imageDimensions (sharp1 p1) = imageDimensions (sharp2 p2)
      \<longrightarrow> extractImageView sharp1 pid1 p1 = extractImageView sharp2 pid2 p2)
   \<and> (sharp p = None \<longrightarrow>
        extractImageView sharp pid p
          = baseFolder p @ ''_'' @ hyphensToUnderscores (semanticViewOf pid p))
   \<and> (sharp p = Some m \<and> sharp' p = None \<longrightarrow>
        extractImageView sharp pid p
          = extractImageView sharp' pid p
              @ ''_'' @ showField (width m) @ ''x'' @ showField (height m))"
proof (intro conjI impI)
  assume "baseFolder p1 = baseFolder p2 \<and> semanticViewOf pid1 p1 = semanticViewOf pid2 p2
      \<and> imageDimensions (sharp1 p1) = imageDimensions (sharp2 p2)"
  then show "extractImageView sharp1 pid1 p1 = extractImageView sharp2 pid2 p2"
    by (simp add: extractImageView_def)
next
  assume "sharp p = None"
  then show "extractImageView sharp pid p
          = baseFolder p @ ''_'' @ hyphensToUnderscores (semanticViewOf pid p)"
    by (rule extractImageView_failed)
next
  assume "sharp p = Some m \<and> sharp' p = None"
  then show "extractImageView sharp pid p
          = extractImageView sharp' pid p
              @ ''_'' @ showField (width m) @ ''x'' @ showField (height m)"
    by (simp add: extractImageView_probed extractImageView_failed imageDimensions_def)
qed

theorem extractImageView_deterministic_witness:
  "extractImageView (\<lambda>_. Some \<lparr>width = Some 800, height = Some 600\<rparr>) ''ABC123''
      ''gray/ABC123_5_large.jpg''
     = extractImageView (\<lambda>_. Some \<lparr>width = Some 800, height = Some 600\<rparr>) ''XYZ''
         ''GRAY/XYZ_instep_profile.jpg''
   \<and> extractImageView (\<lambda>_. None) ''ABC123'' ''default/ABC123_9_regular.jpg''
       = ''default_lifestyle''
   \<and> extractImageView (\<lambda>_. Some \<lparr>width = Some 800, height = Some 600\<rparr>) ''ABC123''
        ''default/ABC123_9_regular.jpg''
       = extractImageView (\<lambda>_. None) ''ABC123'' ''default/ABC123_9_regular.jpg''
           @ ''_800x600''"
proof -
  let ?s = "\<lambda>_::string. Some \<lparr>width = Some 800, height = Some 600\<rparr>"
  let ?f = "\<lambda>_::string. None :: metadata option"
  let ?m = "\<lparr>width = Some 800, height = Some 600\<rparr>"
  note law = extractImageView_deterministic
    [where ?p1.0 = "''gray/ABC123_5_large.jpg''" and ?pid1.0 = "''ABC123''"
       and ?p2.0 = "''GRAY/XYZ_instep_profile.jpg''" and ?pid2.0 = "''XYZ''"
       and ?sharp1.0 = ?s and ?sharp2.0 = ?s
       and sharp = ?s and sharp' = ?f and p = "''default/ABC123_9_regular.jpg''"
       and pid = "''ABC123''" and m = ?m]
  have same: "baseFolder ''gray/ABC123_5_large.jpg'' = baseFolder ''GRAY/XYZ_instep_profile.jpg''
      \<and> semanticViewOf ''ABC123'' ''gray/ABC123_5_large.jpg''
          = semanticViewOf ''XYZ'' ''GRAY/XYZ_instep_profile.jpg''"
    by code_simp
  have first: "extractImageView ?s ''ABC123'' ''gray/ABC123_5_large.jpg''
     = extractImageView ?s ''XYZ'' ''GRAY/XYZ_instep_profile.jpg''"
    using law same by simp
  have dims: "showNat 800 = ''800''" "showNat 600 = ''600''"
    by code_simp+
  have third: "extractImageView ?s ''ABC123'' ''default/ABC123_9_regular.jpg''
       = extractImageView ?f ''ABC123'' ''default/ABC123_9_regular.jpg'' @ ''_800x600''"
    using law dims by (simp add: showField_def)
  have rhs: "baseFolder ''default/ABC123_9_regular.jpg'' @ ''_''
       @ hyphensToUnderscores (semanticViewOf ''ABC123'' ''default/ABC123_9_regular.jpg'')
       = ''default_lifestyle''"
    by code_simp
  have second: "extractImageView ?f ''ABC123'' ''default/ABC123_9_regular.jpg''
       = ''default_lifestyle''"
    using extractImageView_deterministic
      [where sharp = ?f and p = "''default/ABC123_9_regular.jpg''" and pid = "''ABC123''"]
      rhs
    by simp
  from first second third show ?thesis by blast
qed

section \<open>Properties of the views, the inventory and the copies\<close>

lemma startsWith_same_head:
  "startsWith k a \<Longrightarrow> startsWith k b \<Longrightarrow> a \<noteq> [] \<Longrightarrow> b \<noteq> [] \<Longrightarrow> hd a = hd b"
  by (cases k; cases a; cases b) (auto simp: startsWith_def)

lemma key_bucket_prefix:
  "startsWith (extractImageView sharp pid p) ''gray_'' \<longleftrightarrow> baseFolder p = ''gray''"
  "startsWith (extractImageView sharp pid p) ''default_'' \<longleftrightarrow> baseFolder p = ''default''"
  "startsWith (extractImageView sharp pid p) ''white_'' \<longleftrightarrow> baseFolder p = ''white''"
  using extractImageView_prefix [of sharp pid p] baseFolder_cases [of p]
    startsWith_same_head [of "extractImageView sharp pid p" "''gray_''" "''default_''"]
    startsWith_same_head [of "extractImageView sharp pid p" "''gray_''" "''white_''"]
    startsWith_same_head [of "extractImageView sharp pid p" "''default_''" "''white_''"]
  by auto




lemma fold_update_keys:
  "fst ` set (fold (\<lambda>x vs. AList.update (f x) x vs) xs acc) = fst ` set acc \<union> f ` set xs"
  by (induction xs arbitrary: acc) (auto simp: AList.dom_update)


lemma productViews_keys:
  "fst ` set (productViews sharp p) = extractImageView sharp (productId p) ` set (images p)"
  by (simp add: productViews_def fold_update_keys)


lemma imageFilename_inj [simp]: "imageFilename pid k = imageFilename pid k' \<longleftrightarrow> k = k'"
  by (simp add: imageFilename_def)






lemma set_insertBy: "set (insertBy cmp x xs) = insert x (set xs)"
  by (induction xs) auto

lemma set_sortBy: "set (sortBy cmp xs) = set xs"
  by (induction xs) (auto simp: set_insertBy)






lemma baseFolder_gray: "baseFolder p = ''gray'' \<longleftrightarrow> folderName p = ''gray''"
  by (auto simp: baseFolder_def Let_def ignoredFolders_def)

lemma baseFolder_white: "baseFolder p = ''white'' \<longleftrightarrow> folderName p = ''white''"
  by (auto simp: baseFolder_def Let_def ignoredFolders_def)

lemma baseFolder_ignored: "folderName p \<in> set ignoredFolders \<Longrightarrow> baseFolder p = ''default''"
  by (simp add: baseFolder_def Let_def)

lemma view_mkEntry: "map view (map (mkEntry pid) vs) = map fst vs"
  by (simp add: mkEntry_def comp_def)

lemma view_keys_filter:
  "view ` mkEntry pid ` {kv \<in> set vs. Q (fst kv)} = {k \<in> fst ` set vs. Q k}"
  by (force simp: mkEntry_def image_iff)

lemma productViews_key_not_gray:
  assumes "k \<in> fst ` set (productViews sharp p)"
  shows "\<not> startsWith k ''gray_'' \<longleftrightarrow> startsWith k ''default_'' \<or> startsWith k ''white_''"
proof -
  from assms obtain x where k: "k = extractImageView sharp (productId p) x"
    by (auto simp: productViews_keys)
  show ?thesis
    using baseFolder_cases [of x] unfolding k key_bucket_prefix by auto
qed


subsection \<open>Buckets\<close>

text \<open>
  C9: every key the classifier returns begins with exactly one of \<open>default_\<close>, \<open>gray_\<close>
  and \<open>white_\<close>. A path in one of the ignored folders \<open>spins\<close>, \<open>spin\<close>, \<open>swatch\<close> gets
  \<open>default_\<close>; \<open>gray_\<close> and \<open>white_\<close> appear only for the folders of exactly these names,
  so no other folder name becomes a bucket. Hence the non-gray list of the inventory
  holds exactly the keys of the product that begin with \<open>default_\<close> or \<open>white_\<close>, and the
  gray list those that begin with \<open>gray_\<close>.
\<close>

theorem view_key_bucket_prefix:
  "(startsWith (extractImageView sharp pid path) ''default_''
      \<or> startsWith (extractImageView sharp pid path) ''gray_''
      \<or> startsWith (extractImageView sharp pid path) ''white_'')
   \<and> \<not> (startsWith (extractImageView sharp pid path) ''default_''
          \<and> startsWith (extractImageView sharp pid path) ''gray_'')
   \<and> \<not> (startsWith (extractImageView sharp pid path) ''default_''
          \<and> startsWith (extractImageView sharp pid path) ''white_'')
   \<and> \<not> (startsWith (extractImageView sharp pid path) ''gray_''
          \<and> startsWith (extractImageView sharp pid path) ''white_'')
   \<and> (folderName path \<in> set ignoredFolders
        \<longrightarrow> startsWith (extractImageView sharp pid path) ''default_'')
   \<and> (startsWith (extractImageView sharp pid path) ''gray_'' \<longleftrightarrow> folderName path = ''gray'')
   \<and> (startsWith (extractImageView sharp pid path) ''white_'' \<longleftrightarrow> folderName path = ''white'')
   \<and> set (map view (sortedNonGray lc (productId p) (productViews sharp p)))
       = {k \<in> fst ` set (productViews sharp p).
            startsWith k ''default_'' \<or> startsWith k ''white_''}
   \<and> set (map view (sortedGray lc (productId p) (productViews sharp p)))
       = {k \<in> fst ` set (productViews sharp p). startsWith k ''gray_''}"
proof -
  let ?vs = "productViews sharp p"
  have non_gray: "set (map view (sortedNonGray lc (productId p) ?vs))
       = {k \<in> fst ` set ?vs. \<not> startsWith k ''gray_''}"
    using view_keys_filter [of "productId p" ?vs "\<lambda>k. \<not> startsWith k ''gray_''"]
    by (simp add: sortedNonGray_def nonGrayEntries_def set_sortBy)
  have gray: "set (map view (sortedGray lc (productId p) ?vs))
       = {k \<in> fst ` set ?vs. startsWith k ''gray_''}"
    using view_keys_filter [of "productId p" ?vs "\<lambda>k. startsWith k ''gray_''"]
    by (simp add: sortedGray_def grayEntries_def set_sortBy)
  have "{k \<in> fst ` set ?vs. \<not> startsWith k ''gray_''}
      = {k \<in> fst ` set ?vs. startsWith k ''default_'' \<or> startsWith k ''white_''}"
    using productViews_key_not_gray [of _ sharp p] by blast
  with non_gray have non_gray':
    "set (map view (sortedNonGray lc (productId p) ?vs))
       = {k \<in> fst ` set ?vs. startsWith k ''default_'' \<or> startsWith k ''white_''}"
    by simp
  have cls: "(startsWith (extractImageView sharp pid path) ''default_''
      \<or> startsWith (extractImageView sharp pid path) ''gray_''
      \<or> startsWith (extractImageView sharp pid path) ''white_'')
   \<and> \<not> (startsWith (extractImageView sharp pid path) ''default_''
          \<and> startsWith (extractImageView sharp pid path) ''gray_'')
   \<and> \<not> (startsWith (extractImageView sharp pid path) ''default_''
          \<and> startsWith (extractImageView sharp pid path) ''white_'')
   \<and> \<not> (startsWith (extractImageView sharp pid path) ''gray_''
          \<and> startsWith (extractImageView sharp pid path) ''white_'')
   \<and> (folderName path \<in> set ignoredFolders
        \<longrightarrow> startsWith (extractImageView sharp pid path) ''default_'')
   \<and> (startsWith (extractImageView sharp pid path) ''gray_'' \<longleftrightarrow> folderName path = ''gray'')
   \<and> (startsWith (extractImageView sharp pid path) ''white_'' \<longleftrightarrow> folderName path = ''white'')"
    using baseFolder_cases [of path] baseFolder_ignored [of path]
    unfolding key_bucket_prefix baseFolder_gray [symmetric] baseFolder_white [symmetric]
    by auto
  from cls non_gray' gray show ?thesis by blast
qed

theorem view_key_bucket_prefix_witness:
  "folderName ''spins/ABC123_thumbnail.jpg'' \<in> set ignoredFolders
   \<and> startsWith (extractImageView (\<lambda>_. None) ''ABC123'' ''spins/ABC123_thumbnail.jpg'') ''default_''"
proof -
  have f: "folderName ''spins/ABC123_thumbnail.jpg'' \<in> set ignoredFolders"
    by code_simp
  with view_key_bucket_prefix
    [where path = "''spins/ABC123_thumbnail.jpg''" and pid = "''ABC123''"
       and sharp = "\<lambda>_. None"]
  show ?thesis by blast
qed


subsection \<open>Collisions of view keys\<close>




subsection \<open>Copies follow the entries of \<open>views\<close>\<close>



section \<open>Properties of the sort\<close>













section \<open>Properties of the manifest\<close>

lemma split_at_nonempty: "split_at c s \<noteq> []"
  by (induction s) (auto split: list.splits)

lemma split_at_no_sep: "c \<notin> set s \<Longrightarrow> split_at c s = [s]"
  by (induction s) auto

lemma split_at_append: "split_at c (a @ c # b) = split_at c a @ split_at c b"
proof (induction a)
  case Nil
  show ?case by simp
next
  case (Cons x a)
  show ?case
  proof (cases "x = c")
    case True
    with Cons show ?thesis by simp
  next
    case False
    obtain w ws where s: "split_at c a = w # ws"
      using split_at_nonempty [of c a] by (cases "split_at c a") auto
    with False Cons show ?thesis by simp
  qed
qed

lemma split_at_sep_length: "c \<in> set s \<Longrightarrow> 2 \<le> length (split_at c s)"
proof -
  assume "c \<in> set s"
  then obtain a b where "s = a @ c # b" by (auto simp: in_set_conv_decomp)
  then have "length (split_at c s) = length (split_at c a) + length (split_at c b)"
    by (simp add: split_at_append)
  moreover have "1 \<le> length (split_at c a)" "1 \<le> length (split_at c b)"
    using split_at_nonempty [of c a] split_at_nonempty [of c b]
    by (simp_all add: Suc_le_eq)
  ultimately show ?thesis by simp
qed

lemma imageRow_fail:
  "CHR ''_'' \<notin> set t \<Longrightarrow> imageRow info style pos t = Inl TypeError"
  by (simp add: imageRow_def split_at_no_sep)

lemma imageRow_ok:
  assumes "CHR ''_'' \<in> set t"
  shows "\<exists>r. imageRow info style pos t = Inr r \<and> imageSrc r = t \<and> imagePosition r = pos
           \<and> styleColumn r = (if pos = 1 then style else [])"
proof -
  have "\<not> length (split_at CHR ''_'' t) < 2"
    using split_at_sep_length [OF assms] by simp
  then show ?thesis
    by (simp add: imageRow_def Let_def)
qed


lemma imageLoop_rows:
  "imageLoop info style pos imgs = Inr rows \<Longrightarrow>
   map imageSrc rows = imageNames imgs
   \<and> map imagePosition rows = [pos..<pos + length rows]
   \<and> map styleColumn rows = map (\<lambda>i. if i = 1 then style else []) [pos..<pos + length rows]"
proof (induction imgs arbitrary: pos rows)
  case Nil
  then show ?case by (simp add: imageNames_def)
next
  case (Cons img imgs)
  show ?case
  proof (cases "trim img = []")
    case True
    with Cons.prems have "imageLoop info style pos imgs = Inr rows" by simp
    from Cons.IH [OF this] True show ?thesis by (simp add: imageNames_def)
  next
    case False
    show ?thesis
    proof (cases "CHR ''_'' \<in> set (trim img)")
      case u: False
      with False Cons.prems show ?thesis by (simp add: imageRow_fail)
    next
      case True
      from imageRow_ok [OF True] obtain r where
        r: "imageRow info style pos (trim img) = Inr r" "imageSrc r = trim img"
           "imagePosition r = pos" "styleColumn r = (if pos = 1 then style else [])"
        by blast
      with False Cons.prems obtain rs where
        rs: "imageLoop info style (pos + 1) imgs = Inr rs" and rows: "rows = r # rs"
        by (auto split: sum.splits)
      from Cons.IH [OF rs]
      have ih: "map imageSrc rs = imageNames imgs"
        "map imagePosition rs = [pos + 1..<pos + 1 + length rs]"
        "map styleColumn rs = map (\<lambda>i. if i = 1 then style else []) [pos + 1..<pos + 1 + length rs]"
        by simp_all
      have "pos < pos + length rows" by (simp add: rows)
      then have "[pos..<pos + length rows] = pos # [Suc pos..<pos + length rows]"
        by (rule upt_conv_Cons)
      then have up: "[pos..<pos + length rows] = pos # [pos + 1..<pos + 1 + length rs]"
        by (simp add: rows)
      show ?thesis
        unfolding up using r ih False by (simp add: rows imageNames_def)
    qed
  qed
qed





lemma styleLine_empty_key: "m [] = None \<Longrightarrow> styleLine line m [] = None"
  by (simp add: styleLine_def split: list.splits)

lemma fold_styleLine_empty_key: "m [] = None \<Longrightarrow> fold styleLine ls m [] = None"
  by (induction ls arbitrary: m) (simp_all add: styleLine_empty_key)

lemma loadStyleMap_empty_key: "loadStyleMap content [] = None"
  by (simp add: loadStyleMap_def fold_styleLine_empty_key)

lemma splitFields_nonempty: "splitFields s \<noteq> []"
  by (induction s) (auto simp: consHead_def split: list.splits)

lemma rowFields_nonempty: "rowFields row \<noteq> []"
  by (simp add: rowFields_def splitFields_nonempty)

lemma processRow_emits:
  assumes "processRow styleMap row = Inr rows" and "rows \<noteq> []"
  shows "\<exists>info imgs. styleMap (hd (rowFields row)) = Some info
           \<and> imageLoop info (hd (rowFields row)) 1 imgs = Inr rows"
proof -
  obtain f fs where f: "rowFields row = f # fs"
    using rowFields_nonempty [of row] by (cases "rowFields row") auto
  then have f0: "fieldAt (rowFields row) 0 = Some f" by (simp add: fieldAt_def)
  from assms show ?thesis
    unfolding processRow_def Let_def f0
    by (auto simp: f split: if_splits option.splits sum.splits)
qed


text \<open>
  C2 (as the specification states it): of the rows emitted for one product, the second
  carries the style and every other one an empty Style column.
  It is the first: \<open>position++\<close> is evaluated before \<open>position === 2\<close> in the same array
  literal, so the comparison holds exactly on the row whose position is 1, as the
  comment in the source says.
\<close>

theorem style_column_counterexample:
  "map_sum id (map (\<lambda>r. (imagePosition r, styleColumn r)))
     (processRow (loadStyleMap (''ID,Title,Style'' @ [CHR 0x0A] @ ''111,Boot One,ABC123''))
        (quoted ''ABC123'' @ '','' @ quoted [] @ '',''
           @ quoted ''ABC123_gray_profile_800x600.jpg, ABC123_gray_main_800x600.jpg''))
     = Inr [(1, ''ABC123''), (2, [])]"
  by code_simp

text \<open>
  C2 (amended): of the rows emitted for one inventory row, the one at index \<open>i\<close> has
  position \<open>i + 1\<close>; the first carries the style of the inventory row, which is not
  empty, and every other one has the empty string in the Style column.
\<close>

theorem style_on_first_row:
  assumes "processRow (loadStyleMap styles) row = Inr rows" and "i < length rows"
  shows "rowFields row \<noteq> [] \<and> hd (rowFields row) \<noteq> []
    \<and> imagePosition (rows ! i) = i + 1
    \<and> styleColumn (rows ! i) = (if i = 0 then hd (rowFields row) else [])"
proof -
  from assms(2) have "rows \<noteq> []" by auto
  from processRow_emits [OF assms(1) this] obtain info imgs where
    m: "loadStyleMap styles (hd (rowFields row)) = Some info"
    and l: "imageLoop info (hd (rowFields row)) 1 imgs = Inr rows"
    by blast
  from m have ne: "hd (rowFields row) \<noteq> []"
    using loadStyleMap_empty_key [of styles] by auto
  from imageLoop_rows [OF l]
  have ps: "map imagePosition rows = [1..<1 + length rows]"
    and st: "map styleColumn rows
               = map (\<lambda>i. if i = 1 then hd (rowFields row) else []) [1..<1 + length rows]"
    by simp_all
  have "imagePosition (rows ! i) = map imagePosition rows ! i"
    using assms(2) by simp
  also have "\<dots> = 1 + i"
    unfolding ps using assms(2) by (subst nth_upt) simp_all
  finally have pos: "imagePosition (rows ! i) = i + 1" by simp
  have "styleColumn (rows ! i) = map styleColumn rows ! i"
    using assms(2) by simp
  also have "\<dots> = (if 1 + i = 1 then hd (rowFields row) else [])"
    unfolding st using assms(2) by (simp del: upt_Suc)
  finally have sty: "styleColumn (rows ! i) = (if i = 0 then hd (rowFields row) else [])"
    by simp
  from rowFields_nonempty ne pos sty show ?thesis by blast
qed

theorem style_on_first_row_witness:
  "styleColumn
     ([\<lparr>rowId = ''111'', imageType = ''IMAGE'', imageSrc = ''ABC123_gray_profile_800x600.jpg'',
        imageCommand = ''REPLACE'', imagePosition = 1, imageWidth = ''800'',
        imageHeight = ''600'', imageAltText = ''Boot One - profile'', styleColumn = ''ABC123''\<rparr>,
       \<lparr>rowId = ''111'', imageType = ''IMAGE'', imageSrc = ''ABC123_gray_main_800x600.jpg'',
        imageCommand = ''REPLACE'', imagePosition = 2, imageWidth = ''800'',
        imageHeight = ''600'', imageAltText = ''Boot One - main'', styleColumn = []\<rparr>] ! 0)
     = hd (rowFields (quoted ''ABC123'' @ '','' @ quoted [] @ '',''
           @ quoted ''ABC123_gray_profile_800x600.jpg, ABC123_gray_main_800x600.jpg''))"
proof -
  let ?styles = "''ID,Title,Style'' @ [CHR 0x0A] @ ''111,Boot One,ABC123''"
  let ?row = "quoted ''ABC123'' @ '','' @ quoted [] @ '',''
           @ quoted ''ABC123_gray_profile_800x600.jpg, ABC123_gray_main_800x600.jpg''"
  let ?rows = "[\<lparr>rowId = ''111'', imageType = ''IMAGE'', imageSrc = ''ABC123_gray_profile_800x600.jpg'',
        imageCommand = ''REPLACE'', imagePosition = 1, imageWidth = ''800'',
        imageHeight = ''600'', imageAltText = ''Boot One - profile'', styleColumn = ''ABC123''\<rparr>,
       \<lparr>rowId = ''111'', imageType = ''IMAGE'', imageSrc = ''ABC123_gray_main_800x600.jpg'',
        imageCommand = ''REPLACE'', imagePosition = 2, imageWidth = ''800'',
        imageHeight = ''600'', imageAltText = ''Boot One - main'', styleColumn = []\<rparr>]"
  have h1: "processRow (loadStyleMap ?styles) ?row = Inr ?rows"
    by code_simp
  have h2: "0 < length ?rows" by simp
  from style_on_first_row [OF h1 h2] show ?thesis by simp
qed

lemma set_removeFirst: "set (removeFirst pat s) \<subseteq> set s"
proof (induction s)
  case Nil
  show ?case by simp
next
  case (Cons c cs)
  have "set (drop (length pat) (c # cs)) \<subseteq> set (c # cs)"
    by (rule set_drop_subset)
  with Cons show ?case by auto
qed

lemma sanitizeText_bucket:
  "sanitizeText ''default'' = ''default''" "sanitizeText ''gray'' = ''gray''"
  "sanitizeText ''white'' = ''white''"
  by code_simp+

lemma imageRow_last_two:
  assumes parts: "split_at CHR ''_'' t = ps @ [b, w]" and nox: "CHR ''x'' \<notin> set w"
  shows "imageRow info style pos t =
     Inr \<lparr>rowId = shopifyId info, imageType = ''IMAGE'', imageSrc = t,
          imageCommand = ''REPLACE'', imagePosition = pos, imageWidth = [], imageHeight = [],
          imageAltText = sanitizeText (title info)
            @ (if sanitizeText b = ''default'' then [] else '' - '' @ sanitizeText b),
          styleColumn = (if pos + 1 = 2 then style else [])\<rparr>"
proof -
  have d: "CHR ''x'' \<notin> set (removeFirst ''.jpg'' w)"
    using nox set_removeFirst [of "''.jpg''" w] by blast
  have l: "last (ps @ [b, w]) = w" by simp
  have n: "(ps @ [b, w]) ! (length (ps @ [b, w]) - 2) = b"
    by (simp add: nth_append)
  have len: "\<not> length (ps @ [b, w]) < 2" by simp
  show ?thesis
    unfolding imageRow_def parts Let_def l n using d len by simp
qed


text \<open>
  C10 (as the specification states it): for every file name without dimension suffix
  the bucket is taken as the view token, width and height are empty, and with the
  bucket \<open>default\<close> the alt text is the bare title.
  Two keys the classifier produces when the probe fails show otherwise: for
  \<open>default_instep_profile\<close> (from the code 5) the view token is \<open>instep\<close> and the alt
  text is not the bare title; for \<open>default_box\<close> the last segment contains an \<open>x\<close> and
  the width is \<open>bo\<close>.
\<close>

theorem manifest_row_without_dimensions_counterexample:
  "extractImageView (\<lambda>_. None) ''XYZ'' ''XYZ_5.jpg'' = ''default_instep_profile''
   \<and> map_sum id imageAltText
        (imageRow \<lparr>shopifyId = ''222'', title = ''Boot Two''\<rparr> ''XYZ'' 1
           (imageFilename ''XYZ'' ''default_instep_profile''))
       = Inr ''Boot Two - instep''
   \<and> extractImageView (\<lambda>_. None) ''XYZ'' ''XYZ_box.jpg'' = ''default_box''
   \<and> map_sum id (\<lambda>r. (imageWidth r, imageHeight r))
        (imageRow \<lparr>shopifyId = ''222'', title = ''Boot Two''\<rparr> ''XYZ'' 2
           (imageFilename ''XYZ'' ''default_box''))
       = Inr (''bo'', [])"
  by code_simp

text \<open>
  C10 (amended): for a file name \<open>{productId}_{bucket}_{view}.jpg\<close> without dimension
  suffix whose view contains neither an underscore nor the letter \<open>x\<close>, the row is
  emitted with empty width and height, the view token is the bucket, and the alt text is
  the sanitized title, followed by \<open>" - "\<close> and the bucket unless the bucket is
  \<open>default\<close>.
\<close>

theorem manifest_row_without_dimensions:
  assumes "bucket \<in> {''default'', ''gray'', ''white''}"
    and "CHR ''_'' \<notin> set v" and "CHR ''x'' \<notin> set v"
  shows "\<exists>r. imageRow info style pos (imageFilename pid (bucket @ ''_'' @ v)) = Inr r
     \<and> imageWidth r = [] \<and> imageHeight r = []
     \<and> imageAltText r
         = sanitizeText (title info) @ (if bucket = ''default'' then [] else '' - '' @ bucket)"
proof -
  let ?w = "v @ ''.jpg''"
  have b: "CHR ''_'' \<notin> set bucket" using assms(1) by auto
  have w: "CHR ''_'' \<notin> set ?w" using assms(2) by simp
  have x: "CHR ''x'' \<notin> set ?w" using assms(3) by simp
  have t: "imageFilename pid (bucket @ ''_'' @ v) = pid @ CHR ''_'' # (bucket @ CHR ''_'' # ?w)"
    by (simp add: imageFilename_def)
  have "split_at CHR ''_'' (imageFilename pid (bucket @ ''_'' @ v))
          = split_at CHR ''_'' pid @ [bucket, ?w]"
    unfolding t split_at_append split_at_no_sep [OF b] split_at_no_sep [OF w] by simp
  from imageRow_last_two [OF this x, of info style pos]
  have r: "imageRow info style pos (imageFilename pid (bucket @ ''_'' @ v)) =
     Inr \<lparr>rowId = shopifyId info, imageType = ''IMAGE'',
          imageSrc = imageFilename pid (bucket @ ''_'' @ v),
          imageCommand = ''REPLACE'', imagePosition = pos, imageWidth = [], imageHeight = [],
          imageAltText = sanitizeText (title info)
            @ (if sanitizeText bucket = ''default'' then [] else '' - '' @ sanitizeText bucket),
          styleColumn = (if pos + 1 = 2 then style else [])\<rparr>" .
  have s: "sanitizeText bucket = bucket"
    using assms(1) sanitizeText_bucket by auto
  show ?thesis unfolding r s by simp
qed

theorem manifest_row_without_dimensions_witness:
  "\<exists>r. imageRow \<lparr>shopifyId = ''111'', title = ''Boot One''\<rparr> ''ABC123'' 1
         (imageFilename ''ABC123'' (''default'' @ ''_'' @ ''lifestyle'')) = Inr r
     \<and> imageWidth r = [] \<and> imageHeight r = [] \<and> imageAltText r = ''Boot One''"
proof -
  have h1: "''default'' \<in> {''default'', ''gray'', ''white''}" by simp
  have h2: "CHR ''_'' \<notin> set ''lifestyle''" by simp
  have h3: "CHR ''x'' \<notin> set ''lifestyle''" by simp
  have s: "sanitizeText ''Boot One'' = ''Boot One''" by code_simp
  from manifest_row_without_dimensions [OF h1 h2 h3,
      of "\<lparr>shopifyId = ''111'', title = ''Boot One''\<rparr>" "''ABC123''" 1 "''ABC123''"]
  show ?thesis by (simp add: s)
qed


section \<open>Properties of the startup\<close>

lemma ensureDir_insert: "ensureDir d dirs = insert d dirs"
  by (auto simp: ensureDir_def)


text \<open>
  C3 (as the specification states it): when the catalogs, styles or images directory is
  missing at startup, the process exits with a status other than zero.
  \<open>index.js\<close> does not: with the catalogs directory missing it creates the directory and
  goes on.
\<close>

theorem startup_counterexample:
  "catalogsDir \<notin> {stylesDir, imagesDir}
   \<and> startup {stylesDir, imagesDir}
       = Inr {catalogsDir, stylesDir, imagesDir, outputDir, matrixifyDir}"
  by (auto simp: startup_def ensureDir_insert catalogsDir_def stylesDir_def imagesDir_def)

text \<open>
  C3 (amended): at startup every missing directory among catalogs, styles, images,
  output and manifest is created, and the run goes on with all five present. A missing
  style file or a missing inventory file makes \<open>generateMatrixifyCSV\<close> return without
  writing and without throwing. Only the older revision with the explicit checks exits
  with status 1 when the catalogs, styles, images or output directory is missing.
\<close>

theorem startup_creates_missing_directories:
  "startup dirs = Inr (dirs \<union> {catalogsDir, stylesDir, imagesDir, outputDir, matrixifyDir})
   \<and> generateMatrixifyCSV None inventoryFile = Inr None
   \<and> generateMatrixifyCSV (Some styleMapContent) None = Inr None
   \<and> (catalogsDir \<notin> dirs \<or> stylesDir \<notin> dirs \<or> imagesDir \<notin> dirs \<or> outputDir \<notin> dirs
        \<longrightarrow> startupChecked dirs = Inl 1)"
  by (auto simp: startup_def ensureDir_insert generateMatrixifyCSV_def startupChecked_def)

theorem startup_creates_missing_directories_witness:
  "catalogsDir \<notin> {stylesDir, imagesDir} \<and> startupChecked {stylesDir, imagesDir} = Inl 1
   \<and> startup {stylesDir, imagesDir}
       = Inr ({stylesDir, imagesDir} \<union> {catalogsDir, stylesDir, imagesDir, outputDir, matrixifyDir})"
proof -
  have h: "catalogsDir \<notin> {stylesDir, imagesDir}"
    by (simp add: catalogsDir_def stylesDir_def imagesDir_def)
  with startup_creates_missing_directories [of "{stylesDir, imagesDir}"]
  show ?thesis by blast
qed

end
